theory Spec2Isabelle
  imports Main "HOL-Library.Word"
begin

section \<open>The compression request handler (src/app/api/compress/route.ts)\<close>

text \<open>
  The route exports one function, \<open>POST\<close>. It reads a multipart form, resolves a numeric
  quality from the \<open>compressionLevel\<close> field, asks the image library for the format of the
  uploaded bytes, re-encodes them with a format specific encoder and answers with a JSON
  document. The whole body sits in one \<open>try\<close>/\<open>catch\<close>.

  The image library (sharp) and the form parser are not part of the repository: the
  library is a parameter of the model, and the outcome of parsing the form is a field of
  the request. Everything that can throw returns a sum, \<open>Inl\<close> being the thrown value.
\<close>

subsection \<open>Data\<close>

type_synonym byte = "8 word"

type_synonym Buffer = "byte list"

text \<open>A thrown JavaScript value: a \<open>TypeError\<close> or any other \<open>Error\<close>, with its message.\<close>

datatype error = TypeError string | Error string

text \<open>
  An entry of a \<open>FormData\<close> is a \<open>File\<close> or a string; \<open>get\<close> answers the first entry of
  that name, or \<open>null\<close> (\<open>None\<close>). The source casts the entries (\<open>as File\<close>, \<open>as string\<close>),
  which changes nothing at run time.
\<close>

datatype FormDataEntryValue = File Buffer | Text string

type_synonym FormData = "(string \<times> FormDataEntryValue) list"

definition get :: "FormData \<Rightarrow> string \<Rightarrow> FormDataEntryValue option" where
  "get fd name = map_of fd name"

record NextRequest =
  formData :: "error + FormData"
  headers :: "(string \<times> string) list"

text \<open>\<open>!image\<close>: \<open>null\<close> and the empty string are falsy, every object is truthy.\<close>

fun truthy :: "FormDataEntryValue option \<Rightarrow> bool" where
  "truthy None = False"
| "truthy (Some (Text s)) = (s \<noteq> [])"
| "truthy (Some (File b)) = True"

text \<open>
  \<open>image.arrayBuffer()\<close>: only a \<open>File\<close> has the method; on a string, and on \<open>null\<close>, the
  call throws.
\<close>

fun arrayBuffer :: "FormDataEntryValue option \<Rightarrow> error + Buffer" where
  "arrayBuffer (Some (File b)) = Inr b"
| "arrayBuffer (Some (Text s)) = Inl (TypeError ''image.arrayBuffer is not a function'')"
| "arrayBuffer None = Inl (TypeError ''Cannot read properties of null'')"

text \<open>
  The output options the handler hands to the library:
  \<open>.jpeg({ quality, mozjpeg })\<close>, \<open>.png({ quality, compressionLevel })\<close>, \<open>.webp({ quality })\<close>.
\<close>

datatype encoder = jpeg nat bool | png nat nat | webp nat

record image_metadata =
  format :: "string option"

text \<open>
  The library: \<open>sharp(buffer).metadata()\<close> and \<open>sharp(buffer).<encoder>.toBuffer()\<close>.
  Either may reject. What \<open>sharp(buffer)\<close> itself throws counts as a rejection of
  \<open>metadata\<close>, the first call made on it.
\<close>

record sharp =
  metadata :: "Buffer \<Rightarrow> error + image_metadata"
  toBuffer :: "encoder \<Rightarrow> Buffer \<Rightarrow> error + Buffer"

datatype json = JString string | JNumber nat

record NextResponse =
  status :: nat
  body :: "(string \<times> json) list"

text \<open>\<open>NextResponse.json(body, { status })\<close>; the status is 200 when none is given.\<close>

definition NextResponse_json :: "(string \<times> json) list \<Rightarrow> nat \<Rightarrow> NextResponse" where
  "NextResponse_json b s = \<lparr>status = s, body = b\<rparr>"

text \<open>
  What a run of the handler does besides answering, in the order it does it: buffering
  the upload, asking for the metadata, running an encoder, writing to the error console.
\<close>

datatype event =
    ArrayBuffer
  | Metadata Buffer
  | ToBuffer encoder Buffer
  | ConsoleError string error

text \<open>The encoder runs among the events of a run, with the bytes each was given.\<close>

fun encoder_calls :: "event list \<Rightarrow> (encoder \<times> Buffer) list" where
  "encoder_calls [] = []"
| "encoder_calls (ToBuffer enc b # evs) = (enc, b) # encoder_calls evs"
| "encoder_calls (ev # evs) = encoder_calls evs"

subsection \<open>Base64\<close>

text \<open>
  \<open>processedBuffer.toString("base64")\<close> is the platform's base64 of RFC 4648: three bytes
  give four characters of the standard alphabet, a rest of one or two bytes is padded
  with \<open>=\<close>.
\<close>

definition base64_alphabet :: string where
  "base64_alphabet =
     ''ABCDEFGHIJKLMNOPQRSTUVWXYZabcdefghijklmnopqrstuvwxyz0123456789+/''"

definition base64_char :: "nat \<Rightarrow> char" where
  "base64_char n = base64_alphabet ! n"

fun toString_base64 :: "Buffer \<Rightarrow> string" where
  "toString_base64 (a # b # c # rest) =
     [base64_char (unat a div 4),
      base64_char (unat a mod 4 * 16 + unat b div 16),
      base64_char (unat b mod 16 * 4 + unat c div 64),
      base64_char (unat c mod 64)] @ toString_base64 rest"
| "toString_base64 [a, b] =
     [base64_char (unat a div 4),
      base64_char (unat a mod 4 * 16 + unat b div 16),
      base64_char (unat b mod 16 * 4),
      CHR ''='']"
| "toString_base64 [a] =
     [base64_char (unat a div 4),
      base64_char (unat a mod 4 * 16),
      CHR ''='',
      CHR ''='']"
| "toString_base64 [] = []"



subsection \<open>The handler\<close>

text \<open>
  The first \<open>switch\<close>: \<open>"low"\<close> gives 80, \<open>"high"\<close> gives 40, everything else (\<open>"medium"\<close>,
  any other string, a file, \<open>null\<close>) takes the default arm, 60. \<open>switch\<close> compares with
  \<open>===\<close>, so only the string itself matches.
\<close>

definition quality :: "FormDataEntryValue option \<Rightarrow> nat" where
  "quality compressionLevel =
     (if compressionLevel = Some (Text ''low'') then 80
      else if compressionLevel = Some (Text ''high'') then 40
      else 60)"

text \<open>The second \<open>switch\<close>: the encoder for a detected format.\<close>

definition encoder_for :: "string \<Rightarrow> nat \<Rightarrow> encoder" where
  "encoder_for fmt q =
     (if fmt = ''jpeg'' \<or> fmt = ''jpg'' then jpeg q True
      else if fmt = ''png'' then png q 9
      else if fmt = ''webp'' then webp q
      else webp q)"

definition compressedDataUrl :: "string \<Rightarrow> Buffer \<Rightarrow> string" where
  "compressedDataUrl fmt processedBuffer =
     ''data:image/'' @ fmt @ '';base64,'' @ toString_base64 processedBuffer"

text \<open>
  The body of the \<open>try\<close>: the response it returns or the value it throws, and the events
  up to there.
\<close>

definition try_block :: "sharp \<Rightarrow> NextRequest \<Rightarrow> (error + NextResponse) \<times> event list" where
  "try_block lib request =
     (case formData request of
        Inl e \<Rightarrow> (Inl e, [])
      | Inr fd \<Rightarrow>
          let image = get fd ''image'';
              compressionLevel = get fd ''compressionLevel''
          in
          if \<not> truthy image
          then (Inr (NextResponse_json [(''error'', JString ''No image file provided'')] 400), [])
          else
            (case arrayBuffer image of
               Inl e \<Rightarrow> (Inl e, [])
             | Inr buffer \<Rightarrow>
                 let q = quality compressionLevel in
                 (case metadata lib buffer of
                    Inl e \<Rightarrow> (Inl e, [ArrayBuffer, Metadata buffer])
                  | Inr md \<Rightarrow>
                      (case format md of
                         None \<Rightarrow>
                           (Inr (NextResponse_json
                                   [(''error'', JString ''Invalid image format'')] 400),
                            [ArrayBuffer, Metadata buffer])
                       | Some fmt \<Rightarrow>
                           if fmt = []
                           then (Inr (NextResponse_json
                                        [(''error'', JString ''Invalid image format'')] 400),
                                 [ArrayBuffer, Metadata buffer])
                           else
                             (case toBuffer lib (encoder_for fmt q) buffer of
                                Inl e \<Rightarrow>
                                  (Inl e,
                                   [ArrayBuffer, Metadata buffer,
                                    ToBuffer (encoder_for fmt q) buffer])
                              | Inr processedBuffer \<Rightarrow>
                                  (Inr (NextResponse_json
                                          [(''compressedDataUrl'',
                                              JString (compressedDataUrl fmt processedBuffer)),
                                           (''size'', JNumber (length processedBuffer)),
                                           (''format'', JString fmt)] 200),
                                   [ArrayBuffer, Metadata buffer,
                                    ToBuffer (encoder_for fmt q) buffer]))))))"

text \<open>The \<open>catch\<close>: log the thrown value, answer 500 with a fixed message.\<close>

definition POST :: "sharp \<Rightarrow> NextRequest \<Rightarrow> NextResponse \<times> event list" where
  "POST lib request =
     (case try_block lib request of
        (Inr response, evs) \<Rightarrow> (response, evs)
      | (Inl e, evs) \<Rightarrow>
          (NextResponse_json [(''error'', JString ''Failed to process image'')] 500,
           evs @ [ConsoleError ''Error processing image:'' e]))"

subsection \<open>A small library to run the handler on\<close>

text \<open>
  A stand-in for the image library, for evaluating the handler on concrete requests; it is
  not the library, and the theorems below are stated for every library. It recognises the
  leading bytes of JPEG, PNG, WebP and GIF files and rejects every other buffer, as the
  library rejects bytes it cannot decode; it never resolves without a format. Its encoders
  reject an input of fewer than eight bytes and otherwise answer four bytes: a tag of the
  encoder, the quality, and the ninth and tenth byte of the input.
\<close>

definition toy_metadata :: "Buffer \<Rightarrow> error + image_metadata" where
  "toy_metadata b =
     (if take 3 b = [0xFF, 0xD8, 0xFF] then Inr \<lparr>format = Some ''jpeg''\<rparr>
      else if take 4 b = [0x89, 0x50, 0x4E, 0x47] then Inr \<lparr>format = Some ''png''\<rparr>
      else if take 4 b = [0x52, 0x49, 0x46, 0x46] \<and> take 4 (drop 8 b) = [0x57, 0x45, 0x42, 0x50]
        then Inr \<lparr>format = Some ''webp''\<rparr>
      else if take 4 b = [0x47, 0x49, 0x46, 0x38] then Inr \<lparr>format = Some ''gif''\<rparr>
      else if b = [] then Inl (Error ''Input Buffer is empty'')
      else Inl (Error ''Input buffer contains unsupported image format''))"

fun toy_tag :: "encoder \<Rightarrow> Buffer" where
  "toy_tag (jpeg q m) = [0x4A, of_nat q]"
| "toy_tag (png q l) = [0x50, of_nat q]"
| "toy_tag (webp q) = [0x57, of_nat q]"

definition toy_toBuffer :: "encoder \<Rightarrow> Buffer \<Rightarrow> error + Buffer" where
  "toy_toBuffer enc b =
     (if length b < 8 then Inl (Error ''/srv/app/node_modules/sharp: premature end of input'')
      else Inr (toy_tag enc @ take 2 (drop 8 b)))"

definition toy_sharp :: sharp where
  "toy_sharp = \<lparr>metadata = toy_metadata, toBuffer = toy_toBuffer\<rparr>"

definition multipart :: "FormData \<Rightarrow> NextRequest" where
  "multipart fd = \<lparr>formData = Inr fd, headers = [(''content-type'', ''multipart/form-data'')]\<rparr>"

text \<open>A complete GIF file (one pixel), a complete PNG file (one pixel), and a text.\<close>

definition gif_bytes :: Buffer where
  "gif_bytes =
     [0x47, 0x49, 0x46, 0x38, 0x39, 0x61, 0x01, 0x00, 0x01, 0x00, 0x80, 0x00, 0x00, 0x00,
      0x00, 0x00, 0xFF, 0xFF, 0xFF, 0x21, 0xF9, 0x04, 0x01, 0x00, 0x00, 0x00, 0x00, 0x2C,
      0x00, 0x00, 0x00, 0x00, 0x01, 0x00, 0x01, 0x00, 0x00, 0x02, 0x01, 0x44, 0x00, 0x3B]"

definition png_bytes :: Buffer where
  "png_bytes =
     [0x89, 0x50, 0x4E, 0x47, 0x0D, 0x0A, 0x1A, 0x0A, 0x00, 0x00, 0x00, 0x0D, 0x49, 0x48,
      0x44, 0x52, 0x00, 0x00, 0x00, 0x01, 0x00, 0x00, 0x00, 0x01, 0x08, 0x02, 0x00, 0x00,
      0x00, 0x90, 0x77, 0x53, 0xDE, 0x00, 0x00, 0x00, 0x0C, 0x49, 0x44, 0x41, 0x54, 0x78,
      0xDA, 0x63, 0xF8, 0xCF, 0xC0, 0x00, 0x00, 0x03, 0x01, 0x01, 0x00, 0xF7, 0x03, 0x41,
      0x43, 0x00, 0x00, 0x00, 0x00, 0x49, 0x45, 0x4E, 0x44, 0xAE, 0x42, 0x60, 0x82]"

definition text_bytes :: Buffer where
  "text_bytes = [0x6E, 0x6F, 0x74, 0x20, 0x61, 0x6E, 0x20, 0x69, 0x6D, 0x61, 0x67, 0x65]"

section \<open>Properties\<close>

subsection \<open>Base64 decodes to what was encoded\<close>



















subsection \<open>The runs of the handler\<close>

text \<open>
  One lemma for each way through \<open>POST\<close>: the request and the library's answers on the
  left, the response and the events on the right.
\<close>

lemma POST_parse_fault:
  assumes "formData request = Inl e"
  shows "POST lib request =
    (\<lparr>status = 500, body = [(''error'', JString ''Failed to process image'')]\<rparr>,
     [ConsoleError ''Error processing image:'' e])"
  using assms by (simp add: POST_def try_block_def NextResponse_json_def)

lemma POST_no_image:
  assumes "formData request = Inr fd" and "\<not> truthy (get fd ''image'')"
  shows "POST lib request =
    (\<lparr>status = 400, body = [(''error'', JString ''No image file provided'')]\<rparr>, [])"
  using assms by (simp add: POST_def try_block_def NextResponse_json_def)

lemma POST_text_image:
  assumes "formData request = Inr fd" and "get fd ''image'' = Some (Text s)" and "s \<noteq> []"
  shows "POST lib request =
    (\<lparr>status = 500, body = [(''error'', JString ''Failed to process image'')]\<rparr>,
     [ConsoleError ''Error processing image:'' (TypeError ''image.arrayBuffer is not a function'')])"
  using assms by (simp add: POST_def try_block_def NextResponse_json_def)

lemma POST_metadata_fault:
  assumes "formData request = Inr fd" and "get fd ''image'' = Some (File buffer)"
    and "metadata lib buffer = Inl e"
  shows "POST lib request =
    (\<lparr>status = 500, body = [(''error'', JString ''Failed to process image'')]\<rparr>,
     [ArrayBuffer, Metadata buffer, ConsoleError ''Error processing image:'' e])"
  using assms by (simp add: POST_def try_block_def NextResponse_json_def)

lemma POST_no_format:
  assumes "formData request = Inr fd" and "get fd ''image'' = Some (File buffer)"
    and "metadata lib buffer = Inr md" and "format md = None \<or> format md = Some []"
  shows "POST lib request =
    (\<lparr>status = 400, body = [(''error'', JString ''Invalid image format'')]\<rparr>,
     [ArrayBuffer, Metadata buffer])"
  using assms by (auto simp add: POST_def try_block_def NextResponse_json_def)

lemma POST_encoder_fault:
  assumes "formData request = Inr fd" and "get fd ''image'' = Some (File buffer)"
    and "metadata lib buffer = Inr md" and "format md = Some fmt" and "fmt \<noteq> []"
    and "toBuffer lib (encoder_for fmt (quality (get fd ''compressionLevel''))) buffer = Inl e"
  shows "POST lib request =
    (\<lparr>status = 500, body = [(''error'', JString ''Failed to process image'')]\<rparr>,
     [ArrayBuffer, Metadata buffer,
      ToBuffer (encoder_for fmt (quality (get fd ''compressionLevel''))) buffer,
      ConsoleError ''Error processing image:'' e])"
  using assms by (simp add: POST_def try_block_def NextResponse_json_def)

lemma POST_success:
  assumes "formData request = Inr fd" and "get fd ''image'' = Some (File buffer)"
    and "metadata lib buffer = Inr md" and "format md = Some fmt" and "fmt \<noteq> []"
    and "toBuffer lib (encoder_for fmt (quality (get fd ''compressionLevel''))) buffer
           = Inr processedBuffer"
  shows "POST lib request =
    (\<lparr>status = 200,
      body = [(''compressedDataUrl'', JString (compressedDataUrl fmt processedBuffer)),
              (''size'', JNumber (length processedBuffer)),
              (''format'', JString fmt)]\<rparr>,
     [ArrayBuffer, Metadata buffer,
      ToBuffer (encoder_for fmt (quality (get fd ''compressionLevel''))) buffer])"
  using assms by (simp add: POST_def try_block_def NextResponse_json_def)

text \<open>Every run is one of the seven above.\<close>

lemma POST_cases:
  obtains
    (parse_fault) e where "formData request = Inl e"
  | (no_image) fd where "formData request = Inr fd" "\<not> truthy (get fd ''image'')"
  | (text_image) fd s where "formData request = Inr fd" "get fd ''image'' = Some (Text s)" "s \<noteq> []"
  | (metadata_fault) fd buffer e where "formData request = Inr fd"
      "get fd ''image'' = Some (File buffer)" "metadata lib buffer = Inl e"
  | (no_format) fd buffer md where "formData request = Inr fd"
      "get fd ''image'' = Some (File buffer)" "metadata lib buffer = Inr md"
      "format md = None \<or> format md = Some []"
  | (encoder_fault) fd buffer md fmt e where "formData request = Inr fd"
      "get fd ''image'' = Some (File buffer)" "metadata lib buffer = Inr md"
      "format md = Some fmt" "fmt \<noteq> []"
      "toBuffer lib (encoder_for fmt (quality (get fd ''compressionLevel''))) buffer = Inl e"
  | (success) fd buffer md fmt processedBuffer where "formData request = Inr fd"
      "get fd ''image'' = Some (File buffer)" "metadata lib buffer = Inr md"
      "format md = Some fmt" "fmt \<noteq> []"
      "toBuffer lib (encoder_for fmt (quality (get fd ''compressionLevel''))) buffer
         = Inr processedBuffer"
proof (cases "formData request")
  case (Inl e)
  then show ?thesis by (rule parse_fault)
next
  case (Inr fd)
  note fd = this
  show ?thesis
  proof (cases "get fd ''image''")
    case None
    with fd show ?thesis by (intro no_image [of fd]) simp_all
  next
    case (Some entry)
    show ?thesis
    proof (cases entry)
      case (Text s)
      with Some fd show ?thesis
        by (cases "s = []") (auto intro: no_image [of fd] text_image [of fd s])
    next
      case (File buffer)
      with Some have img: "get fd ''image'' = Some (File buffer)" by simp
      show ?thesis
      proof (cases "metadata lib buffer")
        case (Inl e)
        with fd img show ?thesis by (rule metadata_fault)
      next
        case (Inr md)
        note md = this
        show ?thesis
        proof (cases "format md")
          case None
          with fd img md show ?thesis by (intro no_format [of fd buffer md]) simp_all
        next
          case (Some fmt)
          note fmt = this
          show ?thesis
          proof (cases "fmt = []")
            case True
            with fd img md fmt show ?thesis by (intro no_format [of fd buffer md]) simp_all
          next
            case False
            show ?thesis
            proof (cases "toBuffer lib (encoder_for fmt (quality (get fd ''compressionLevel''))) buffer")
              case (Inl e)
              with fd img md fmt False show ?thesis by (intro encoder_fault [of fd buffer md fmt e])
            next
              case (Inr out)
              with fd img md fmt False show ?thesis by (intro success [of fd buffer md fmt out])
            qed
          qed
        qed
      qed
    qed
  qed
qed


subsection \<open>Output format\<close>

text \<open>
  For the three formats with an arm of their own the response names the detected format,
  and the encoder that ran is the one of that format.
\<close>

lemma known_format_fidelity:
  assumes "formData request = Inr fd"
    and "get fd ''image'' = Some (File buffer)"
    and "metadata lib buffer = Inr md"
    and "format md = Some fmt"
    and "fmt = ''jpeg'' \<or> fmt = ''png'' \<or> fmt = ''webp''"
    and "toBuffer lib (encoder_for fmt (quality (get fd ''compressionLevel''))) buffer
           = Inr processedBuffer"
  shows "map_of (body (fst (POST lib request))) ''format'' = Some (JString fmt)"
proof -
  from assms(5) have "fmt \<noteq> []" by auto
  from POST_success [OF assms(1-4) this assms(6)] show ?thesis by simp
qed

text \<open>
  C1 (format fidelity; other formats reported as webp). The second half does not hold of
  the handler: when the detected format is none of jpeg, jpg, png and webp, the default arm
  runs the webp encoder on the bytes, but the response is built from the detected format:
  the \<open>format\<close> field is the source format and the data URL starts with
  \<open>data:image/<source format>\<close>, around bytes that are webp.
\<close>

theorem other_format_keeps_source_label:
  assumes "formData request = Inr fd"
    and "get fd ''image'' = Some (File buffer)"
    and "metadata lib buffer = Inr md"
    and "format md = Some fmt"
    and "fmt \<notin> {[], ''jpeg'', ''jpg'', ''png'', ''webp''}"
    and "toBuffer lib (webp (quality (get fd ''compressionLevel''))) buffer = Inr processedBuffer"
  shows "POST lib request =
    (\<lparr>status = 200,
      body = [(''compressedDataUrl'',
                 JString (''data:image/'' @ fmt @ '';base64,'' @ toString_base64 processedBuffer)),
              (''size'', JNumber (length processedBuffer)),
              (''format'', JString fmt)]\<rparr>,
     [ArrayBuffer, Metadata buffer,
      ToBuffer (webp (quality (get fd ''compressionLevel''))) buffer])"
proof -
  from assms(5) have ne: "fmt \<noteq> []" by simp
  from assms(5) have enc: "encoder_for fmt q = webp q" for q
    by (simp add: encoder_for_def)
  from assms(6) have
    "toBuffer lib (encoder_for fmt (quality (get fd ''compressionLevel''))) buffer
       = Inr processedBuffer"
    by (simp add: enc)
  from POST_success [OF assms(1-4) ne this] show ?thesis
    by (simp add: enc compressedDataUrl_def)
qed

theorem other_format_keeps_source_label_witness:
  "POST toy_sharp
     (multipart [(''image'', File gif_bytes), (''compressionLevel'', Text ''medium'')]) =
    (\<lparr>status = 200,
      body = [(''compressedDataUrl'', JString ''data:image/gif;base64,VzwBAA==''),
              (''size'', JNumber 4),
              (''format'', JString ''gif'')]\<rparr>,
     [ArrayBuffer, Metadata gif_bytes, ToBuffer (webp 60) gif_bytes])"
proof -
  let ?fd = "[(''image'', File gif_bytes), (''compressionLevel'', Text ''medium'')]"
  have q: "quality (get ?fd ''compressionLevel'') = 60"
    by (simp add: get_def quality_def)
  have "POST toy_sharp (multipart ?fd) =
    (\<lparr>status = 200,
      body = [(''compressedDataUrl'',
                 JString (''data:image/'' @ ''gif'' @ '';base64,'' @ toString_base64 [0x57, 60, 1, 0])),
              (''size'', JNumber (length [0x57, 60, 1, 0 :: byte])),
              (''format'', JString ''gif'')]\<rparr>,
     [ArrayBuffer, Metadata gif_bytes,
      ToBuffer (webp (quality (get ?fd ''compressionLevel''))) gif_bytes])"
    by (rule other_format_keeps_source_label [where md = "\<lparr>format = Some ''gif''\<rparr>"])
       (simp_all add: multipart_def get_def toy_sharp_def toy_metadata_def toy_toBuffer_def
          gif_bytes_def quality_def)
  then show ?thesis
    by (simp add: q base64_char_def base64_alphabet_def)
qed

subsection \<open>The quality table\<close>

text \<open>
  C2 (quality mapping). The resolved quality is 80 for \<open>"low"\<close>, 60 for \<open>"medium"\<close> and 40
  for \<open>"high"\<close>; every other value of the field (another string, an absent field, a file)
  resolves to 60. The resolution has no failing branch: \<open>quality\<close> answers a number for
  every value.
\<close>

theorem quality_table:
  "quality (Some (Text ''low'')) = 80 \<and>
   quality (Some (Text ''medium'')) = 60 \<and>
   quality (Some (Text ''high'')) = 40 \<and>
   (\<forall>v. v \<notin> {Some (Text ''low''), Some (Text ''medium''), Some (Text ''high'')}
        \<longrightarrow> quality v = 60)"
  by (simp add: quality_def)

theorem quality_table_witness:
  "quality (Some (Text ''ultra'')) = 60 \<and> quality None = 60 \<and>
   quality (Some (File [0x4C, 0x4F])) = 60 \<and> quality (Some (Text ''LOW'')) = 60"
proof -
  have "\<forall>v. v \<notin> {Some (Text ''low''), Some (Text ''medium''), Some (Text ''high'')}
        \<longrightarrow> quality v = 60"
    using quality_table by blast
  then show ?thesis by simp
qed

subsection \<open>The two client errors\<close>

text \<open>
  The 400 with \<open>Invalid image format\<close> is answered only when the library resolved the
  metadata of an uploaded file and the metadata has no format, or an empty one.
\<close>

lemma invalid_format_only_without_format:
  assumes "fst (POST lib request) =
             \<lparr>status = 400, body = [(''error'', JString ''Invalid image format'')]\<rparr>"
  shows "\<exists>fd buffer md.
           formData request = Inr fd \<and> get fd ''image'' = Some (File buffer) \<and>
           metadata lib buffer = Inr md \<and> (format md = None \<or> format md = Some [])"
proof (cases rule: POST_cases [where request = request and lib = lib])
  case (parse_fault e)
  with assms show ?thesis by (simp add: POST_parse_fault)
next
  case (no_image fd)
  with assms show ?thesis by (simp add: POST_no_image)
next
  case (text_image fd s)
  with assms show ?thesis by (simp add: POST_text_image)
next
  case (metadata_fault fd buffer e)
  with assms show ?thesis by (simp add: POST_metadata_fault)
next
  case (no_format fd buffer md)
  then show ?thesis by blast
next
  case (encoder_fault fd buffer md fmt e)
  with assms show ?thesis by (simp add: POST_encoder_fault)
next
  case (success fd buffer md fmt processedBuffer)
  with assms show ?thesis by (simp add: POST_success)
qed

text \<open>
  C3 (undecodable bytes). The claim does not hold of the handler. The library rejects
  bytes it cannot decode; the rejection is thrown inside the \<open>try\<close>, so the response is
  the 500 of the \<open>catch\<close> with \<open>Failed to process image\<close>, not the 400 with
  \<open>Invalid image format\<close> that the handler has a branch for. What the claim says besides
  does hold: no encoder runs, and the body has the error message only.
\<close>

theorem undecodable_upload_answered_500:
  assumes "formData request = Inr fd"
    and "get fd ''image'' = Some (File buffer)"
    and "metadata lib buffer = Inl e"
  shows "fst (POST lib request) =
           \<lparr>status = 500, body = [(''error'', JString ''Failed to process image'')]\<rparr> \<and>
         status (fst (POST lib request)) \<noteq> 400 \<and>
         encoder_calls (snd (POST lib request)) = []"
  unfolding POST_metadata_fault [OF assms] by simp

theorem undecodable_upload_answered_500_witness:
  "fst (POST toy_sharp (multipart [(''image'', File text_bytes)])) =
     \<lparr>status = 500, body = [(''error'', JString ''Failed to process image'')]\<rparr> \<and>
   status (fst (POST toy_sharp (multipart [(''image'', File text_bytes)]))) \<noteq> 400 \<and>
   encoder_calls (snd (POST toy_sharp (multipart [(''image'', File text_bytes)]))) = []"
  by (rule undecodable_upload_answered_500
        [where fd = "[(''image'', File text_bytes)]" and buffer = text_bytes
           and e = "Error ''Input buffer contains unsupported image format''"])
     (simp_all add: multipart_def get_def toy_sharp_def toy_metadata_def text_bytes_def)




text \<open>The 400 of this branch is answered in no other case.\<close>

lemma no_image_only_when_absent:
  assumes "fst (POST lib request) =
             \<lparr>status = 400, body = [(''error'', JString ''No image file provided'')]\<rparr>"
  shows "\<exists>fd. formData request = Inr fd \<and>
           (get fd ''image'' = None \<or> get fd ''image'' = Some (Text []))"
proof (cases rule: POST_cases [where request = request and lib = lib])
  case (parse_fault e)
  with assms show ?thesis by (simp add: POST_parse_fault)
next
  case (no_image fd)
  from no_image(2) have "get fd ''image'' = None \<or> get fd ''image'' = Some (Text [])"
    by (cases "get fd ''image''" rule: truthy.cases) simp_all
  with no_image(1) show ?thesis by blast
next
  case (text_image fd s)
  with assms show ?thesis by (simp add: POST_text_image)
next
  case (metadata_fault fd buffer e)
  with assms show ?thesis by (simp add: POST_metadata_fault)
next
  case (no_format fd buffer md)
  with assms show ?thesis by (simp add: POST_no_format)
next
  case (encoder_fault fd buffer md fmt e)
  with assms show ?thesis by (simp add: POST_encoder_fault)
next
  case (success fd buffer md fmt processedBuffer)
  with assms show ?thesis by (simp add: POST_success)
qed

subsection \<open>Encoder dispatch\<close>

text \<open>
  C4 (dispatch table). A request that reaches the second \<open>switch\<close> (a file was uploaded
  and the library reported a non-empty format) is answered from one call of the library's
  encoder, on the uploaded bytes, with the options that the detected format and the
  resolved quality determine: jpeg with mozjpeg for \<open>jpeg\<close> and \<open>jpg\<close>, png with
  compression level 9 for \<open>png\<close>, webp for \<open>webp\<close> and for every other format. What that
  call returns is what the response carries; what it throws goes to the \<open>catch\<close>.
\<close>

theorem encoder_dispatch:
  assumes "formData request = Inr fd"
    and "get fd ''image'' = Some (File buffer)"
    and "metadata lib buffer = Inr md"
    and "format md = Some fmt" and "fmt \<noteq> []"
    and "q = quality (get fd ''compressionLevel'')"
    and "enc = (if fmt = ''jpeg'' \<or> fmt = ''jpg'' then jpeg q True
                else if fmt = ''png'' then png q 9
                else webp q)"
  shows "POST lib request =
    (case toBuffer lib enc buffer of
       Inr processedBuffer \<Rightarrow>
         (\<lparr>status = 200,
           body = [(''compressedDataUrl'',
                      JString (''data:image/'' @ fmt @ '';base64,''
                               @ toString_base64 processedBuffer)),
                   (''size'', JNumber (length processedBuffer)),
                   (''format'', JString fmt)]\<rparr>,
          [ArrayBuffer, Metadata buffer, ToBuffer enc buffer])
     | Inl e \<Rightarrow>
         (\<lparr>status = 500, body = [(''error'', JString ''Failed to process image'')]\<rparr>,
          [ArrayBuffer, Metadata buffer, ToBuffer enc buffer,
           ConsoleError ''Error processing image:'' e]))"
proof -
  have enc: "encoder_for fmt (quality (get fd ''compressionLevel'')) = enc"
    unfolding assms(6,7) by (simp add: encoder_for_def)
  show ?thesis
  proof (cases "toBuffer lib enc buffer")
    case (Inl e)
    with enc have "toBuffer lib (encoder_for fmt (quality (get fd ''compressionLevel''))) buffer
                     = Inl e"
      by simp
    from POST_encoder_fault [OF assms(1-5) this] show ?thesis
      by (simp add: enc Inl)
  next
    case (Inr out)
    with enc have "toBuffer lib (encoder_for fmt (quality (get fd ''compressionLevel''))) buffer
                     = Inr out"
      by simp
    from POST_success [OF assms(1-5) this] show ?thesis
      by (simp add: enc Inr compressedDataUrl_def)
  qed
qed

theorem encoder_dispatch_witness:
  "POST toy_sharp
     (multipart [(''image'', File png_bytes), (''compressionLevel'', Text ''high'')]) =
    (\<lparr>status = 200,
      body = [(''compressedDataUrl'', JString ''data:image/png;base64,UCgAAA==''),
              (''size'', JNumber 4),
              (''format'', JString ''png'')]\<rparr>,
     [ArrayBuffer, Metadata png_bytes, ToBuffer (png 40 9) png_bytes])"
proof -
  let ?fd = "[(''image'', File png_bytes), (''compressionLevel'', Text ''high'')]"
  have out: "toBuffer toy_sharp (png 40 9) png_bytes = Inr [0x50, 40, 0, 0]"
    by (simp add: toy_sharp_def toy_toBuffer_def png_bytes_def)
  have "POST toy_sharp (multipart ?fd) =
    (case toBuffer toy_sharp (png 40 9) png_bytes of
       Inr processedBuffer \<Rightarrow>
         (\<lparr>status = 200,
           body = [(''compressedDataUrl'',
                      JString (''data:image/'' @ ''png'' @ '';base64,''
                               @ toString_base64 processedBuffer)),
                   (''size'', JNumber (length processedBuffer)),
                   (''format'', JString ''png'')]\<rparr>,
          [ArrayBuffer, Metadata png_bytes, ToBuffer (png 40 9) png_bytes])
     | Inl e \<Rightarrow>
         (\<lparr>status = 500, body = [(''error'', JString ''Failed to process image'')]\<rparr>,
          [ArrayBuffer, Metadata png_bytes, ToBuffer (png 40 9) png_bytes,
           ConsoleError ''Error processing image:'' e]))"
    by (rule encoder_dispatch
          [where fd = ?fd and buffer = png_bytes and md = "\<lparr>format = Some ''png''\<rparr>"
             and fmt = "''png''" and q = 40 and enc = "png 40 9", simplified])
       (simp_all add: multipart_def get_def toy_sharp_def toy_metadata_def png_bytes_def
          quality_def)
  then show ?thesis
    unfolding out by (simp add: base64_char_def base64_alphabet_def)
qed

subsection \<open>The success response\<close>



subsection \<open>Faults\<close>

text \<open>
  C7 (faults become a generic 500). The body of the \<open>try\<close> can throw in four places:
  parsing the form, calling \<open>arrayBuffer\<close> on an \<open>image\<close> entry that is a non-empty string,
  asking the library for the metadata, and running the encoder. In each the thrown value
  goes to the error console and the response is 500 with the one message
  \<open>Failed to process image\<close>, whatever was thrown; the body has no other field.
\<close>

theorem faults_answered_with_generic_500:
  "(formData request = Inl e \<longrightarrow>
      POST lib request =
        (\<lparr>status = 500, body = [(''error'', JString ''Failed to process image'')]\<rparr>,
         [ConsoleError ''Error processing image:'' e])) \<and>
   (formData request = Inr fd \<and> get fd ''image'' = Some (Text s) \<and> s \<noteq> [] \<longrightarrow>
      POST lib request =
        (\<lparr>status = 500, body = [(''error'', JString ''Failed to process image'')]\<rparr>,
         [ConsoleError ''Error processing image:''
            (TypeError ''image.arrayBuffer is not a function'')])) \<and>
   (formData request = Inr fd \<and> get fd ''image'' = Some (File buffer) \<and>
    metadata lib buffer = Inl e \<longrightarrow>
      POST lib request =
        (\<lparr>status = 500, body = [(''error'', JString ''Failed to process image'')]\<rparr>,
         [ArrayBuffer, Metadata buffer, ConsoleError ''Error processing image:'' e])) \<and>
   (formData request = Inr fd \<and> get fd ''image'' = Some (File buffer) \<and>
    metadata lib buffer = Inr md \<and> format md = Some fmt \<and> fmt \<noteq> [] \<and>
    toBuffer lib (encoder_for fmt (quality (get fd ''compressionLevel''))) buffer = Inl e \<longrightarrow>
      POST lib request =
        (\<lparr>status = 500, body = [(''error'', JString ''Failed to process image'')]\<rparr>,
         [ArrayBuffer, Metadata buffer,
          ToBuffer (encoder_for fmt (quality (get fd ''compressionLevel''))) buffer,
          ConsoleError ''Error processing image:'' e]))"
proof (intro conjI impI)
  assume "formData request = Inl e"
  then show "POST lib request =
        (\<lparr>status = 500, body = [(''error'', JString ''Failed to process image'')]\<rparr>,
         [ConsoleError ''Error processing image:'' e])"
    by (rule POST_parse_fault)
next
  assume "formData request = Inr fd \<and> get fd ''image'' = Some (Text s) \<and> s \<noteq> []"
  then show "POST lib request =
        (\<lparr>status = 500, body = [(''error'', JString ''Failed to process image'')]\<rparr>,
         [ConsoleError ''Error processing image:''
            (TypeError ''image.arrayBuffer is not a function'')])"
    by (intro POST_text_image [of request fd s]) simp_all
next
  assume "formData request = Inr fd \<and> get fd ''image'' = Some (File buffer) \<and>
    metadata lib buffer = Inl e"
  then show "POST lib request =
        (\<lparr>status = 500, body = [(''error'', JString ''Failed to process image'')]\<rparr>,
         [ArrayBuffer, Metadata buffer, ConsoleError ''Error processing image:'' e])"
    by (intro POST_metadata_fault [of request fd]) simp_all
next
  assume "formData request = Inr fd \<and> get fd ''image'' = Some (File buffer) \<and>
    metadata lib buffer = Inr md \<and> format md = Some fmt \<and> fmt \<noteq> [] \<and>
    toBuffer lib (encoder_for fmt (quality (get fd ''compressionLevel''))) buffer = Inl e"
  then show "POST lib request =
        (\<lparr>status = 500, body = [(''error'', JString ''Failed to process image'')]\<rparr>,
         [ArrayBuffer, Metadata buffer,
          ToBuffer (encoder_for fmt (quality (get fd ''compressionLevel''))) buffer,
          ConsoleError ''Error processing image:'' e])"
    by (intro POST_encoder_fault [of request fd buffer lib md]) simp_all
qed

theorem faults_answered_with_generic_500_witness:
  "fst (POST toy_sharp \<lparr>formData = Inl (TypeError ''Content-Type was not multipart/form-data''),
                         headers = [(''content-type'', ''application/json'')]\<rparr>) =
     \<lparr>status = 500, body = [(''error'', JString ''Failed to process image'')]\<rparr> \<and>
   fst (POST toy_sharp (multipart [(''image'', Text ''hello'')])) =
     \<lparr>status = 500, body = [(''error'', JString ''Failed to process image'')]\<rparr> \<and>
   fst (POST toy_sharp (multipart [(''image'', File [1, 1, 2])])) =
     \<lparr>status = 500, body = [(''error'', JString ''Failed to process image'')]\<rparr> \<and>
   POST toy_sharp (multipart [(''image'', File [0xFF, 0xD8, 0xFF])]) =
     (\<lparr>status = 500, body = [(''error'', JString ''Failed to process image'')]\<rparr>,
      [ArrayBuffer, Metadata [0xFF, 0xD8, 0xFF], ToBuffer (jpeg 60 True) [0xFF, 0xD8, 0xFF],
       ConsoleError ''Error processing image:''
         (Error ''/srv/app/node_modules/sharp: premature end of input'')])"
proof -
  let ?r1 = "\<lparr>formData = Inl (TypeError ''Content-Type was not multipart/form-data''),
              headers = [(''content-type'', ''application/json'')]\<rparr>"
  let ?fd4 = "[(''image'', File [0xFF, 0xD8, 0xFF])]"
  have 1: "fst (POST toy_sharp ?r1) =
     \<lparr>status = 500, body = [(''error'', JString ''Failed to process image'')]\<rparr>"
    using faults_answered_with_generic_500
      [of ?r1 "TypeError ''Content-Type was not multipart/form-data''" toy_sharp]
    by simp
  have 2: "fst (POST toy_sharp (multipart [(''image'', Text ''hello'')])) =
     \<lparr>status = 500, body = [(''error'', JString ''Failed to process image'')]\<rparr>"
    using faults_answered_with_generic_500
      [of "multipart [(''image'', Text ''hello'')]" _ toy_sharp "[(''image'', Text ''hello'')]"
          "''hello''"]
    by (simp add: multipart_def get_def)
  have 3: "fst (POST toy_sharp (multipart [(''image'', File [1, 1, 2])])) =
     \<lparr>status = 500, body = [(''error'', JString ''Failed to process image'')]\<rparr>"
    using faults_answered_with_generic_500
      [of "multipart [(''image'', File [1, 1, 2])]"
          "Error ''Input buffer contains unsupported image format''" toy_sharp
          "[(''image'', File [1, 1, 2])]" _ "[1, 1, 2]"]
    by (simp add: multipart_def get_def toy_sharp_def toy_metadata_def)
  have 4: "POST toy_sharp (multipart ?fd4) =
     (\<lparr>status = 500, body = [(''error'', JString ''Failed to process image'')]\<rparr>,
      [ArrayBuffer, Metadata [0xFF, 0xD8, 0xFF], ToBuffer (jpeg 60 True) [0xFF, 0xD8, 0xFF],
       ConsoleError ''Error processing image:''
         (Error ''/srv/app/node_modules/sharp: premature end of input'')])"
    using faults_answered_with_generic_500
      [of "multipart ?fd4" "Error ''/srv/app/node_modules/sharp: premature end of input''"
          toy_sharp ?fd4 _ "[0xFF, 0xD8, 0xFF]" "\<lparr>format = Some ''jpeg''\<rparr>" "''jpeg''"]
    by (simp add: multipart_def get_def toy_sharp_def toy_metadata_def toy_toBuffer_def
        quality_def encoder_for_def)
  from 1 2 3 4 show ?thesis by (intro conjI)
qed

subsection \<open>What the response depends on\<close>

text \<open>
  C8 (stateless and deterministic). The handler is a function of the library and the
  request, and of the request it reads two things only: the first \<open>image\<close> entry and the
  first \<open>compressionLevel\<close> entry of the form. Two requests that agree on these get the same
  response and the same events, whatever else they carry.
\<close>

theorem response_depends_on_image_and_level_only:
  assumes "formData r1 = Inr fd1" and "formData r2 = Inr fd2"
    and "get fd1 ''image'' = get fd2 ''image''"
    and "get fd1 ''compressionLevel'' = get fd2 ''compressionLevel''"
  shows "POST lib r1 = POST lib r2"
  using assms by (simp add: POST_def try_block_def)

theorem response_depends_on_image_and_level_only_witness:
  "POST toy_sharp
     (multipart [(''image'', File png_bytes), (''compressionLevel'', Text ''low'')]) =
   POST toy_sharp
     \<lparr>formData = Inr [(''note'', Text ''second upload''), (''compressionLevel'', Text ''low''),
                       (''image'', File png_bytes), (''image'', File gif_bytes),
                       (''compressionLevel'', Text ''high'')],
      headers = [(''x-request-id'', ''2'')]\<rparr>"
  by (rule response_depends_on_image_and_level_only
        [where ?fd1.0 = "[(''image'', File png_bytes), (''compressionLevel'', Text ''low'')]"
           and ?fd2.0 = "[(''note'', Text ''second upload''), (''compressionLevel'', Text ''low''),
                       (''image'', File png_bytes), (''image'', File gif_bytes),
                       (''compressionLevel'', Text ''high'')]"])
     (simp_all add: multipart_def get_def)

subsection \<open>Totality\<close>

text \<open>
  C10 (total at the interface). Every request gets a response, and it is one of three: 200
  with exactly the fields \<open>compressedDataUrl\<close>, \<open>size\<close> and \<open>format\<close>; 400 with only an
  \<open>error\<close> message, one of the two of the handler; 500 with only the generic \<open>error\<close>
  message. Nothing is thrown out of \<open>POST\<close>: a failure to parse the form is caught like
  the others.
\<close>

theorem POST_total:
  "(status (fst (POST lib request)) = 200 \<and>
      (\<exists>url n fmt. body (fst (POST lib request)) =
         [(''compressedDataUrl'', JString url), (''size'', JNumber n), (''format'', JString fmt)]))
   \<or> (status (fst (POST lib request)) = 400 \<and>
      (body (fst (POST lib request)) = [(''error'', JString ''No image file provided'')] \<or>
       body (fst (POST lib request)) = [(''error'', JString ''Invalid image format'')]))
   \<or> (status (fst (POST lib request)) = 500 \<and>
      body (fst (POST lib request)) = [(''error'', JString ''Failed to process image'')])"
proof (cases rule: POST_cases [where request = request and lib = lib])
  case (parse_fault e)
  then show ?thesis by (simp add: POST_parse_fault)
next
  case (no_image fd)
  then show ?thesis by (simp add: POST_no_image)
next
  case (text_image fd s)
  then show ?thesis by (simp add: POST_text_image)
next
  case (metadata_fault fd buffer e)
  then show ?thesis by (simp add: POST_metadata_fault)
next
  case (no_format fd buffer md)
  then show ?thesis by (simp add: POST_no_format)
next
  case (encoder_fault fd buffer md fmt e)
  then show ?thesis by (simp add: POST_encoder_fault)
next
  case (success fd buffer md fmt processedBuffer)
  then show ?thesis by (simp add: POST_success)
qed

end
